theory Spec2Isabelle
  imports Complex_Main
begin

section \<open>JavaScript numbers\<close>

text \<open>
  The bot computes on JavaScript numbers. Prices and their sums are modelled as exact
  reals (the specification's "decimal"); rounding of IEEE doubles is not modelled. The
  special values that the code itself produces or can read are kept: \<open>Infinity\<close> (assigned
  to \<open>rs\<close> in \<open>calculateRSI\<close>), and \<open>NaN\<close> (arithmetic on \<open>undefined\<close>, which an array
  read past the end returns, and \<open>0 / 0\<close>). Signed zeros are not distinguished.
\<close>

datatype jsnum = Num real | PosInf | NegInf | NaN

fun js_neg :: "jsnum \<Rightarrow> jsnum" where
  "js_neg (Num a) = Num (- a)"
| "js_neg PosInf = NegInf"
| "js_neg NegInf = PosInf"
| "js_neg NaN = NaN"

fun js_add :: "jsnum \<Rightarrow> jsnum \<Rightarrow> jsnum" where
  "js_add NaN y = NaN"
| "js_add x NaN = NaN"
| "js_add (Num a) (Num b) = Num (a + b)"
| "js_add PosInf NegInf = NaN"
| "js_add NegInf PosInf = NaN"
| "js_add PosInf y = PosInf"
| "js_add x PosInf = PosInf"
| "js_add NegInf y = NegInf"
| "js_add x NegInf = NegInf"

definition js_sub :: "jsnum \<Rightarrow> jsnum \<Rightarrow> jsnum" where
  "js_sub x y = js_add x (js_neg y)"

fun js_abs :: "jsnum \<Rightarrow> jsnum" where
  "js_abs (Num a) = Num \<bar>a\<bar>"
| "js_abs PosInf = PosInf"
| "js_abs NegInf = PosInf"
| "js_abs NaN = NaN"

fun js_div :: "jsnum \<Rightarrow> jsnum \<Rightarrow> jsnum" where
  "js_div NaN y = NaN"
| "js_div x NaN = NaN"
| "js_div (Num a) (Num b) =
     (if b = 0 then (if a = 0 then NaN else if 0 < a then PosInf else NegInf)
      else Num (a / b))"
| "js_div (Num a) y = Num 0"
| "js_div PosInf (Num b) = (if 0 \<le> b then PosInf else NegInf)"
| "js_div NegInf (Num b) = (if 0 \<le> b then NegInf else PosInf)"
| "js_div x y = NaN"

text \<open>The relational operators \<open>>\<close>, \<open>>=\<close>, \<open><=\<close> and strict equality; every comparison
  with \<open>NaN\<close> is false.\<close>

fun js_gt :: "jsnum \<Rightarrow> jsnum \<Rightarrow> bool" where
  "js_gt NaN y = False"
| "js_gt x NaN = False"
| "js_gt (Num a) (Num b) = (b < a)"
| "js_gt PosInf PosInf = False"
| "js_gt PosInf y = True"
| "js_gt x PosInf = False"
| "js_gt NegInf y = False"
| "js_gt x NegInf = True"

fun js_seq :: "jsnum \<Rightarrow> jsnum \<Rightarrow> bool" where
  "js_seq NaN y = False"
| "js_seq x NaN = False"
| "js_seq x y = (x = y)"

definition js_ge :: "jsnum \<Rightarrow> jsnum \<Rightarrow> bool" where
  "js_ge x y = (js_gt x y \<or> js_seq x y)"

definition js_le :: "jsnum \<Rightarrow> jsnum \<Rightarrow> bool" where
  "js_le x y = js_ge y x"

text \<open>\<open>closes[i]\<close> used as an operand: past the end the read gives \<open>undefined\<close>, which
  arithmetic converts to \<open>NaN\<close>.\<close>

definition js_index :: "real list \<Rightarrow> nat \<Rightarrow> jsnum" where
  "js_index xs i = (if i < length xs then Num (xs ! i) else NaN)"

section \<open>calculateRSI\<close>

text \<open>The \<open>for (let i = 1; i <= period; i++)\<close> loop, carrying \<open>(gains, losses)\<close>.\<close>

function rsi_loop :: "real list \<Rightarrow> nat \<Rightarrow> nat \<Rightarrow> jsnum \<times> jsnum \<Rightarrow> jsnum \<times> jsnum" where
  "rsi_loop closes period i (gains, losses) =
     (if i \<le> period then
        (let difference = js_sub (js_index closes (i - 1)) (js_index closes i) in
         if js_gt difference (Num 0)
         then rsi_loop closes period (Suc i) (js_add gains difference, losses)
         else rsi_loop closes period (Suc i) (gains, js_add losses (js_abs difference)))
      else (gains, losses))"
  by pat_completeness auto
termination
  by (relation "measure (\<lambda>(closes, period, i, acc). Suc period - i)") auto

definition avgGain :: "real list \<Rightarrow> nat \<Rightarrow> jsnum" where
  "avgGain closes period =
     js_div (fst (rsi_loop closes period 1 (Num 0, Num 0))) (Num (real period))"

definition avgLoss :: "real list \<Rightarrow> nat \<Rightarrow> jsnum" where
  "avgLoss closes period =
     js_div (snd (rsi_loop closes period 1 (Num 0, Num 0))) (Num (real period))"

definition calculateRSI :: "real list \<Rightarrow> nat \<Rightarrow> jsnum" where
  "calculateRSI closes period =
     (let rs = (if js_seq (avgLoss closes period) (Num 0) then PosInf
                else js_div (avgGain closes period) (avgLoss closes period))
      in js_sub (Num 100) (js_div (Num 100) (js_add (Num 1) rs)))"

section \<open>Provider data and the indicator computation\<close>

text \<open>A promise that is awaited either rejects (the \<open>await\<close> throws) or resolves.\<close>

datatype 'a awaited = Rejected | Resolved 'a

text \<open>One row of \<open>result.quotes\<close>; \<open>close\<close> is a number or \<open>null\<close>.\<close>

record quote_row =
  close :: "real option"

text \<open>The chart result; \<open>quotes\<close> may be missing.\<close>

record chart_result =
  quotes :: "quote_row list option"

text \<open>The fields of \<open>yahooFinance.quote\<close>'s result that the code reads.\<close>

record quote_info =
  longName :: "string option"
  shortName :: "string option"

text \<open>Truthiness of a number-or-null and of a string-or-null.\<close>

definition truthy_num :: "real option \<Rightarrow> bool" where
  "truthy_num v = (case v of None \<Rightarrow> False | Some x \<Rightarrow> x \<noteq> 0)"

definition truthy_str :: "string option \<Rightarrow> bool" where
  "truthy_str v = (case v of None \<Rightarrow> False | Some s \<Rightarrow> s \<noteq> [])"

text \<open>\<open>result.quotes.filter(q => q.close).map(q => q.close).reverse()\<close>. After the filter
  every \<open>close\<close> is a number, so \<open>the\<close> is only applied to \<open>Some\<close>.\<close>

definition filter_closes :: "quote_row list \<Rightarrow> quote_row list" where
  "filter_closes qs = filter (\<lambda>q. truthy_num (close q)) qs"

definition closes_of :: "quote_row list \<Rightarrow> real list" where
  "closes_of qs = map (\<lambda>q. the (close q)) (filter_closes qs)"

definition latest_first :: "quote_row list \<Rightarrow> real list" where
  "latest_first qs = rev (closes_of qs)"

text \<open>\<open>quotes.slice(0, n).reduce((a, b) => a + b, 0) / n\<close>.\<close>

definition slice_mean :: "real list \<Rightarrow> nat \<Rightarrow> real" where
  "slice_mean qs n = foldl (\<lambda>a b. a + b) 0 (take n qs) / real n"

record market_snapshot =
  currentPrice :: real
  ma200 :: real
  rsi5 :: "jsnum option"
  rsi14 :: "jsnum option"

record asset_data = market_snapshot +
  name :: string
  symbol :: string
  ma50 :: real

text \<open>\<open>getMarketData\<close> of \<open>bot.js\<close>; the argument is what the awaited chart request gives.\<close>

definition getMarketData :: "chart_result option awaited \<Rightarrow> market_snapshot option" where
  "getMarketData chartRes =
     (case chartRes of
        Rejected \<Rightarrow> None
      | Resolved None \<Rightarrow> None
      | Resolved (Some result) \<Rightarrow>
          (case quotes result of
             None \<Rightarrow> None
           | Some rows \<Rightarrow>
               if length rows < 200 then None
               else
                 let qs = latest_first rows in
                 if length qs < 200 then None
                 else Some \<lparr>currentPrice = qs ! 0,
                            ma200 = slice_mean qs 200,
                            rsi5 = (if 6 \<le> length qs then Some (calculateRSI (take 6 qs) 5) else None),
                            rsi14 = (if 15 \<le> length qs then Some (calculateRSI (take 15 qs) 14) else None)\<rparr>))"

text \<open>\<open>quote.longName || quote.shortName || symbol\<close>.\<close>

definition display_name :: "quote_info \<Rightarrow> string \<Rightarrow> string" where
  "display_name quote symb =
     (if truthy_str (longName quote) then the (longName quote)
      else if truthy_str (shortName quote) then the (shortName quote)
      else symb)"

text \<open>\<open>getAssetData\<close> of the scheduler variant; the two awaited requests are arguments.
  Every exception is caught inside and gives \<open>null\<close>.\<close>

definition getAssetData ::
  "string \<Rightarrow> quote_info option awaited \<Rightarrow> chart_result option awaited \<Rightarrow> asset_data option" where
  "getAssetData symb quoteRes chartRes =
     (case quoteRes of
        Rejected \<Rightarrow> None
      | Resolved None \<Rightarrow> None
      | Resolved (Some quote) \<Rightarrow>
          (case chartRes of
             Rejected \<Rightarrow> None
           | Resolved None \<Rightarrow> None
           | Resolved (Some result) \<Rightarrow>
               (case quotes result of
                  None \<Rightarrow> None
                | Some rows \<Rightarrow>
                    if length rows < 200 then None
                    else
                      let qs = latest_first rows in
                      if length qs < 200 then None
                      else Some \<lparr>currentPrice = qs ! 0,
                                 ma200 = slice_mean qs 200,
                                 rsi5 = (if 6 \<le> length qs then Some (calculateRSI (take 6 qs) 5) else None),
                                 rsi14 = (if 15 \<le> length qs then Some (calculateRSI (take 15 qs) 14) else None),
                                 name = display_name quote symb,
                                 symbol = symb,
                                 ma50 = slice_mean qs 50\<rparr>)))"

section \<open>The on-demand report\<close>

text \<open>A relational operator converts \<open>null\<close> to \<open>0\<close>.\<close>

definition to_number :: "jsnum option \<Rightarrow> jsnum" where
  "to_number v = (case v of None \<Rightarrow> Num 0 | Some x \<Rightarrow> x)"

text \<open>\<open>data.rsi5 >= 70 ? 'Overbought' : data.rsi5 <= 30 ? 'Oversold' : 'Neutral'\<close>, the
  same expression in both message handlers (the emoji prefixes are left out).\<close>

definition rsiStatus :: "jsnum option \<Rightarrow> string" where
  "rsiStatus rsi =
     (if js_ge (to_number rsi) (Num 70) then ''Overbought''
      else if js_le (to_number rsi) (Num 30) then ''Oversold''
      else ''Neutral'')"

section \<open>Alert state and the scheduled job\<close>

text \<open>The process-wide \<open>marketData\<close> object, and the same record as stored in
  \<open>market-data.json\<close>.\<close>

record market_data =
  lastStatus :: "string option"
  alertChannel :: "string option"

definition initial_marketData :: market_data where
  "initial_marketData = \<lparr>lastStatus = None, alertChannel = None\<rparr>"

text \<open>At startup the file, when it exists, replaces the initial object.\<close>

definition load_marketData :: "market_data option \<Rightarrow> market_data" where
  "load_marketData file = (case file of None \<Rightarrow> initial_marketData | Some m \<Rightarrow> m)"

text \<open>The alert handed to \<open>channel.send\<close>: the values interpolated into the five lines of
  the message (number formatting and emoji are left out).\<close>

record alert_message =
  direction :: string
  closedSide :: string
  closePrice :: real
  ma200Value :: real
  crossoverType :: string

text \<open>What a tick can change: the object in memory, the file, and the messages sent
  (channel and alert). Console output is not part of the state.\<close>

record world =
  marketData :: market_data
  dataFile :: "market_data option"
  sent :: "(string \<times> alert_message) list"

datatype error = WriteFailed

text \<open>\<open>fs.writeFileSync\<close> either replaces the file by the serialised object or throws and
  leaves the file as it was; which of the two is given by the caller.\<close>

definition saveMarketData :: "bool \<Rightarrow> world \<Rightarrow> error + world" where
  "saveMarketData writeOk w =
     (if writeOk then Inr (w\<lparr>dataFile := Some (marketData w)\<rparr>) else Inl WriteFailed)"

text \<open>What the outside gives to one tick: the channel lookup, the two provider requests
  and whether the file write succeeds.\<close>

record tick_env =
  channelFetch :: "string option awaited"
  quoteFetch :: "quote_info option awaited"
  chartFetch :: "chart_result option awaited"
  writeSucceeds :: bool

definition currentStatus :: "asset_data \<Rightarrow> string" where
  "currentStatus d = (if currentPrice d > ma200 d then ''above'' else ''below'')"

definition alert_for :: "asset_data \<Rightarrow> alert_message" where
  "alert_for d =
     \<lparr>direction = (if currentStatus d = ''above'' then ''BULLISH CROSSOVER''
                     else ''BEARISH CROSSOVER''),
      closedSide = currentStatus d,
      closePrice = currentPrice d,
      ma200Value = ma200 d,
      crossoverType = (if currentStatus d = ''above'' then ''Golden Cross''
                       else ''Death Cross'')\<rparr>"

text \<open>The callback given to \<open>schedule.scheduleJob\<close>. The channel lookup is outside the
  \<open>try\<close>: when it rejects the callback ends there. Inside the \<open>try\<close> the in-memory
  \<open>lastStatus\<close> is assigned before \<open>saveMarketData\<close> runs, and the \<open>catch\<close> only logs.\<close>

definition scheduledJob :: "tick_env \<Rightarrow> world \<Rightarrow> world" where
  "scheduledJob env w =
     (if \<not> truthy_str (alertChannel (marketData w)) then w
      else
        (case channelFetch env of
           Rejected \<Rightarrow> w
         | Resolved None \<Rightarrow> w
         | Resolved (Some channel) \<Rightarrow>
             (case getAssetData ''^GSPC'' (quoteFetch env) (chartFetch env) of
                None \<Rightarrow> w
              | Some d \<Rightarrow>
                  let w1 = (if truthy_str (lastStatus (marketData w))
                               \<and> lastStatus (marketData w) \<noteq> Some (currentStatus d)
                            then w\<lparr>sent := sent w @ [(channel, alert_for d)]\<rparr>
                            else w);
                      w2 = w1\<lparr>marketData := (marketData w1)\<lparr>lastStatus := Some (currentStatus d)\<rparr>\<rparr>
                  in (case saveMarketData (writeSucceeds env) w2 of
                        Inr w3 \<Rightarrow> w3
                      | Inl e \<Rightarrow> w2))))"

section \<open>Reference quantities and example inputs\<close>



text \<open>Provider series, oldest row first: 199 closes of 100 followed by a last close of 110
  (the specification's end-to-end example), of 90, and of 0; and a series that is too short.\<close>

definition rising_rows :: "quote_row list" where
  "rising_rows = replicate 199 \<lparr>close = Some 100\<rparr> @ [\<lparr>close = Some 110\<rparr>]"

definition falling_rows :: "quote_row list" where
  "falling_rows = replicate 199 \<lparr>close = Some 100\<rparr> @ [\<lparr>close = Some 90\<rparr>]"

definition zero_rows :: "quote_row list" where
  "zero_rows = replicate 199 \<lparr>close = Some 100\<rparr> @ [\<lparr>close = Some 0\<rparr>]"

definition short_rows :: "quote_row list" where
  "short_rows = replicate 150 \<lparr>close = Some 100\<rparr>"

definition sp500_quote :: quote_info where
  "sp500_quote = \<lparr>longName = Some ''S&P 500'', shortName = None\<rparr>"

definition example_env :: "quote_row list \<Rightarrow> bool \<Rightarrow> tick_env" where
  "example_env rows ok =
     \<lparr>channelFetch = Resolved (Some ''alerts''),
      quoteFetch = Resolved (Some sp500_quote),
      chartFetch = Resolved (Some \<lparr>quotes = Some rows\<rparr>),
      writeSucceeds = ok\<rparr>"

definition example_world :: "string option \<Rightarrow> world" where
  "example_world prior =
     \<lparr>marketData = \<lparr>lastStatus = prior, alertChannel = Some ''alerts''\<rparr>,
      dataFile = Some \<lparr>lastStatus = prior, alertChannel = Some ''alerts''\<rparr>,
      sent = []\<rparr>"

section \<open>The RSI loop computes the two sums\<close>








section \<open>What the data functions return\<close>

lemma filter_closes_keeps:
  "filter_closes rows = filter (\<lambda>q. close q \<noteq> None \<and> close q \<noteq> Some 0) rows"
  unfolding filter_closes_def truthy_num_def
  by (rule filter_cong) (auto split: option.splits)


lemma length_latest_first: "length (latest_first rows) = length (filter_closes rows)"
  by (simp add: latest_first_def closes_of_def)



lemma getAssetData_SomeD:
  assumes "getAssetData symb quoteRes chartRes = Some d"
  shows "\<exists>quote rows. quoteRes = Resolved (Some quote)
           \<and> chartRes = Resolved (Some \<lparr>quotes = Some rows\<rparr>)
           \<and> 200 \<le> length (filter_closes rows)
           \<and> currentPrice d = latest_first rows ! 0
           \<and> ma200 d = slice_mean (latest_first rows) 200
           \<and> rsi5 d = Some (calculateRSI (take 6 (latest_first rows)) 5)
           \<and> rsi14 d = Some (calculateRSI (take 15 (latest_first rows)) 14)"
proof -
  from assms obtain quote where q: "quoteRes = Resolved (Some quote)"
    by (auto simp: getAssetData_def split: awaited.splits option.splits)
  from assms q obtain result where r: "chartRes = Resolved (Some result)"
    by (auto simp: getAssetData_def split: awaited.splits option.splits)
  from assms q r obtain rows where rows: "quotes result = Some rows"
    by (auto simp: getAssetData_def split: option.splits)
  have res: "result = \<lparr>quotes = Some rows\<rparr>" using rows by (cases result) simp
  from assms q r rows have len: "200 \<le> length (latest_first rows)"
    by (auto simp: getAssetData_def Let_def split: if_splits)
  from assms q r rows len have
    "d = \<lparr>currentPrice = latest_first rows ! 0,
          ma200 = slice_mean (latest_first rows) 200,
          rsi5 = Some (calculateRSI (take 6 (latest_first rows)) 5),
          rsi14 = Some (calculateRSI (take 15 (latest_first rows)) 14),
          name = display_name quote symb,
          symbol = symb,
          ma50 = slice_mean (latest_first rows) 50\<rparr>"
    by (auto simp: getAssetData_def Let_def split: if_splits)
  then show ?thesis using q r res len by (simp add: length_latest_first)
qed






text \<open>The job once the channel is there and the data is valid.\<close>

lemma scheduledJob_valid:
  assumes "truthy_str (alertChannel (marketData w))"
      and "channelFetch env = Resolved (Some channel)"
      and "getAssetData ''^GSPC'' (quoteFetch env) (chartFetch env) = Some d"
  shows "scheduledJob env w =
     w\<lparr>marketData := (marketData w)\<lparr>lastStatus := Some (currentStatus d)\<rparr>,
       dataFile := (if writeSucceeds env
                    then Some ((marketData w)\<lparr>lastStatus := Some (currentStatus d)\<rparr>)
                    else dataFile w),
       sent := (if truthy_str (lastStatus (marketData w))
                   \<and> lastStatus (marketData w) \<noteq> Some (currentStatus d)
                then sent w @ [(channel, alert_for d)] else sent w)\<rparr>"
  using assms by (simp add: scheduledJob_def saveMarketData_def Let_def)

section \<open>The example series, evaluated\<close>

lemma rising_data:
  "getAssetData ''^GSPC'' (Resolved (Some sp500_quote)) (Resolved (Some \<lparr>quotes = Some rising_rows\<rparr>)) =
     Some \<lparr>currentPrice = 110, ma200 = 2001 / 20, rsi5 = Some (Num 100), rsi14 = Some (Num 100),
           name = ''S&P 500'', symbol = ''^GSPC'', ma50 = 501 / 5\<rparr>"
  by code_simp

lemma falling_data:
  "getAssetData ''^GSPC'' (Resolved (Some sp500_quote)) (Resolved (Some \<lparr>quotes = Some falling_rows\<rparr>)) =
     Some \<lparr>currentPrice = 90, ma200 = 1999 / 20, rsi5 = Some (Num 0), rsi14 = Some (Num 0),
           name = ''S&P 500'', symbol = ''^GSPC'', ma50 = 499 / 5\<rparr>"
  by code_simp

lemma short_data:
  "getAssetData ''^GSPC'' (Resolved (Some sp500_quote)) (Resolved (Some \<lparr>quotes = Some short_rows\<rparr>)) = None"
  by code_simp

lemma example_channel: "truthy_str (alertChannel (marketData (example_world p)))"
  by (simp add: example_world_def truthy_str_def)

lemma example_fetch: "channelFetch (example_env rows ok) = Resolved (Some ''alerts'')"
  by (simp add: example_env_def)

lemma example_rising:
  "getAssetData ''^GSPC'' (quoteFetch (example_env rising_rows ok)) (chartFetch (example_env rising_rows ok)) =
     Some \<lparr>currentPrice = 110, ma200 = 2001 / 20, rsi5 = Some (Num 100), rsi14 = Some (Num 100),
           name = ''S&P 500'', symbol = ''^GSPC'', ma50 = 501 / 5\<rparr>"
  by (simp add: example_env_def rising_data)

lemma example_falling:
  "getAssetData ''^GSPC'' (quoteFetch (example_env falling_rows ok)) (chartFetch (example_env falling_rows ok)) =
     Some \<lparr>currentPrice = 90, ma200 = 1999 / 20, rsi5 = Some (Num 0), rsi14 = Some (Num 0),
           name = ''S&P 500'', symbol = ''^GSPC'', ma50 = 499 / 5\<rparr>"
  by (simp add: example_env_def falling_data)

section \<open>The alert state machine\<close>

text \<open>
  Claim C1. On a tick that reaches the evaluation (alert channel configured and found, valid
  data), the side stored afterwards is \<open>above\<close> when \<open>currentPrice > ma200\<close> and \<open>below\<close>
  otherwise, so equality is \<open>below\<close>. From \<open>above\<close> with \<open>currentPrice < ma200\<close> exactly one
  bearish alert is sent and the side becomes \<open>below\<close>; from \<open>below\<close> with
  \<open>currentPrice > ma200\<close> exactly one bullish alert is sent and the side becomes \<open>above\<close>;
  when the side stays the same nothing is sent.
\<close>

theorem alert_exactly_on_flip:
  assumes "truthy_str (alertChannel (marketData w))"
      and "channelFetch env = Resolved (Some channel)"
      and "getAssetData ''^GSPC'' (quoteFetch env) (chartFetch env) = Some d"
  shows "lastStatus (marketData (scheduledJob env w)) =
           Some (if currentPrice d > ma200 d then ''above'' else ''below'')
       \<and> (lastStatus (marketData w) = Some ''above'' \<and> currentPrice d < ma200 d \<longrightarrow>
            sent (scheduledJob env w) = sent w @ [(channel, alert_for d)]
            \<and> direction (alert_for d) = ''BEARISH CROSSOVER''
            \<and> lastStatus (marketData (scheduledJob env w)) = Some ''below'')
       \<and> (lastStatus (marketData w) = Some ''below'' \<and> currentPrice d > ma200 d \<longrightarrow>
            sent (scheduledJob env w) = sent w @ [(channel, alert_for d)]
            \<and> direction (alert_for d) = ''BULLISH CROSSOVER''
            \<and> lastStatus (marketData (scheduledJob env w)) = Some ''above'')
       \<and> (lastStatus (marketData w) = lastStatus (marketData (scheduledJob env w)) \<longrightarrow>
            sent (scheduledJob env w) = sent w)"
  by (simp add: scheduledJob_valid[OF assms] currentStatus_def alert_for_def truthy_str_def)

theorem alert_exactly_on_flip_witness:
  "sent (scheduledJob (example_env falling_rows True) (example_world (Some ''above''))) =
     [(''alerts'', \<lparr>direction = ''BEARISH CROSSOVER'', closedSide = ''below'', closePrice = 90,
         ma200Value = 1999 / 20, crossoverType = ''Death Cross''\<rparr>)]
   \<and> lastStatus (marketData (scheduledJob (example_env falling_rows True) (example_world (Some ''above'')))) = Some ''below''
   \<and> sent (scheduledJob (example_env rising_rows True) (example_world (Some ''below''))) =
     [(''alerts'', \<lparr>direction = ''BULLISH CROSSOVER'', closedSide = ''above'', closePrice = 110,
         ma200Value = 2001 / 20, crossoverType = ''Golden Cross''\<rparr>)]
   \<and> lastStatus (marketData (scheduledJob (example_env rising_rows True) (example_world (Some ''below'')))) = Some ''above''
   \<and> sent (scheduledJob (example_env rising_rows True) (example_world (Some ''above''))) = []"
  using alert_exactly_on_flip[OF example_channel example_fetch example_falling, of True "Some ''above''"]
        alert_exactly_on_flip[OF example_channel example_fetch example_rising, of True "Some ''below''"]
        alert_exactly_on_flip[OF example_channel example_fetch example_rising, of True "Some ''above''"]
  by (simp add: example_world_def alert_for_def currentStatus_def)

text \<open>
  Claim C2. On a tick that reaches the evaluation with no side stored yet (\<open>lastStatus\<close> is
  \<open>null\<close>), nothing is sent, the newly classified side is stored in memory, and it is
  written to the file when the write succeeds.
\<close>

theorem no_alert_on_first_run:
  assumes "truthy_str (alertChannel (marketData w))"
      and "channelFetch env = Resolved (Some channel)"
      and "getAssetData ''^GSPC'' (quoteFetch env) (chartFetch env) = Some d"
      and "lastStatus (marketData w) = None"
  shows "sent (scheduledJob env w) = sent w
       \<and> lastStatus (marketData (scheduledJob env w)) = Some (currentStatus d)
       \<and> (writeSucceeds env \<longrightarrow>
            dataFile (scheduledJob env w) =
              Some \<lparr>lastStatus = Some (currentStatus d), alertChannel = alertChannel (marketData w)\<rparr>)"
  using assms(4)
  by (simp add: scheduledJob_valid[OF assms(1-3)] truthy_str_def)

theorem no_alert_on_first_run_witness:
  "sent (scheduledJob (example_env rising_rows True) (example_world None)) = []
   \<and> lastStatus (marketData (scheduledJob (example_env rising_rows True) (example_world None))) = Some ''above''
   \<and> dataFile (scheduledJob (example_env rising_rows True) (example_world None)) =
        Some \<lparr>lastStatus = Some ''above'', alertChannel = Some ''alerts''\<rparr>"
proof -
  have prior: "lastStatus (marketData (example_world None)) = None"
    by (simp add: example_world_def)
  show ?thesis
    using no_alert_on_first_run[OF example_channel example_fetch example_rising prior]
    by (simp add: example_world_def example_env_def currentStatus_def)
qed

text \<open>
  Claim C6. On a tick that reaches the evaluation, the in-memory record afterwards is the
  old one with \<open>lastStatus\<close> set to the newly classified side, whether or not an alert was
  sent, and a successful write stores exactly that record in the file.
\<close>

theorem new_side_persisted:
  assumes "truthy_str (alertChannel (marketData w))"
      and "channelFetch env = Resolved (Some channel)"
      and "getAssetData ''^GSPC'' (quoteFetch env) (chartFetch env) = Some d"
  shows "marketData (scheduledJob env w) = (marketData w)\<lparr>lastStatus := Some (currentStatus d)\<rparr>
       \<and> (writeSucceeds env \<longrightarrow>
            dataFile (scheduledJob env w) =
              Some ((marketData w)\<lparr>lastStatus := Some (currentStatus d)\<rparr>))"
  by (simp add: scheduledJob_valid[OF assms])

theorem new_side_persisted_witness:
  "sent (scheduledJob (example_env falling_rows True) (example_world (Some ''above''))) \<noteq> []
   \<and> dataFile (scheduledJob (example_env falling_rows True) (example_world (Some ''above''))) =
        Some \<lparr>lastStatus = Some ''below'', alertChannel = Some ''alerts''\<rparr>
   \<and> sent (scheduledJob (example_env falling_rows True) (example_world (Some ''below''))) = []
   \<and> dataFile (scheduledJob (example_env falling_rows True) (example_world (Some ''below''))) =
        Some \<lparr>lastStatus = Some ''below'', alertChannel = Some ''alerts''\<rparr>"
proof -
  have ok: "writeSucceeds (example_env falling_rows True)" by (simp add: example_env_def)
  have fired: "sent (scheduledJob (example_env falling_rows True) (example_world (Some ''above''))) \<noteq> []"
    by code_simp
  have quiet: "sent (scheduledJob (example_env falling_rows True) (example_world (Some ''below''))) = []"
    by code_simp
  show ?thesis
    using new_side_persisted[OF example_channel example_fetch example_falling, of True "Some ''above''"]
          new_side_persisted[OF example_channel example_fetch example_falling, of True "Some ''below''"]
          ok fired quiet
    by (simp add: example_world_def currentStatus_def)
qed

text \<open>
  Claim C7. A tick on which a provider request fails or gives nothing, or on which fewer
  than 200 closes survive the filter, changes nothing: memory, file and sent messages are
  as before.
\<close>

theorem invalid_tick_is_noop:
  assumes "quoteFetch env = Rejected \<or> quoteFetch env = Resolved None
         \<or> chartFetch env = Rejected \<or> chartFetch env = Resolved None
         \<or> chartFetch env = Resolved (Some \<lparr>quotes = None\<rparr>)
         \<or> (\<exists>rows. chartFetch env = Resolved (Some \<lparr>quotes = Some rows\<rparr>)
                \<and> length (filter_closes rows) < 200)"
  shows "scheduledJob env w = w"
proof -
  have "getAssetData ''^GSPC'' (quoteFetch env) (chartFetch env) = None"
  proof (cases "getAssetData ''^GSPC'' (quoteFetch env) (chartFetch env)")
    case None
    then show ?thesis .
  next
    case (Some d)
    from getAssetData_SomeD[OF Some] assms show ?thesis by auto
  qed
  then show ?thesis
    by (simp add: scheduledJob_def split: awaited.splits option.splits)
qed

theorem invalid_tick_is_noop_witness:
  "scheduledJob (example_env short_rows True) (example_world (Some ''above'')) = example_world (Some ''above'')
   \<and> scheduledJob ((example_env rising_rows True)\<lparr>chartFetch := Rejected\<rparr>) (example_world (Some ''below''))
       = example_world (Some ''below'')"
proof -
  have a: "chartFetch (example_env short_rows True) = Resolved (Some \<lparr>quotes = Some short_rows\<rparr>)
           \<and> length (filter_closes short_rows) < 200"
    by (simp add: example_env_def short_rows_def filter_closes_def truthy_num_def)
  have b: "chartFetch ((example_env rising_rows True)\<lparr>chartFetch := Rejected\<rparr>) = Rejected"
    by simp
  show ?thesis
    using invalid_tick_is_noop[of "example_env short_rows True" "example_world (Some ''above'')"]
          invalid_tick_is_noop[of "(example_env rising_rows True)\<lparr>chartFetch := Rejected\<rparr>"
             "example_world (Some ''below'')"] a b
    by blast
qed




section \<open>The indicator computation\<close>












text \<open>
  Claim C8 against the code: the filter keeps a row when its \<open>close\<close> is truthy, so a row
  whose close is the number \<open>0\<close> is dropped together with the \<open>null\<close> ones. A series of 200
  rows that all carry a number, one of them \<open>0\<close>, is rejected as too short.
\<close>

theorem zero_close_is_dropped:
  "filter_closes [\<lparr>close = Some 100\<rparr>, \<lparr>close = Some 0\<rparr>, \<lparr>close = None\<rparr>, \<lparr>close = Some 101\<rparr>]
     = [\<lparr>close = Some 100\<rparr>, \<lparr>close = Some 101\<rparr>]
   \<and> length (filter (\<lambda>q. close q \<noteq> None) zero_rows) = 200
   \<and> length (filter_closes zero_rows) = 199
   \<and> getMarketData (Resolved (Some \<lparr>quotes = Some zero_rows\<rparr>)) = None
   \<and> getAssetData ''^GSPC'' (Resolved (Some sp500_quote)) (Resolved (Some \<lparr>quotes = Some zero_rows\<rparr>)) = None"
  by code_simp

section \<open>The report\<close>

text \<open>
  Claim C9. A present RSI number is reported as Overbought exactly when it is at least 70,
  as Oversold exactly when it is at most 30, and as Neutral exactly when it lies strictly
  between 30 and 70.
\<close>

theorem rsiStatus_thresholds:
  "(rsiStatus (Some (Num r)) = ''Overbought'') = (70 \<le> r)
   \<and> (rsiStatus (Some (Num r)) = ''Oversold'') = (r \<le> 30)
   \<and> (rsiStatus (Some (Num r)) = ''Neutral'') = (30 < r \<and> r < 70)"
  by (auto simp: rsiStatus_def to_number_def js_ge_def js_le_def)

end
